theory Spec2Isabelle
  imports Main "HOL-Library.Word"
begin

section \<open>Values of the JavaScript runtime\<close>

text \<open>
  The service is one Express application (\<^verbatim>\<open>src/index.ts\<close>). Its handlers move JSON
  values between the request body, the cache directory, the proving library and the
  response. Numbers are the integers the service meets (timestamps). The repository's
  second source file is an earlier copy of the same application, without the cache and
  with the retry arguments 20 and 2000; the model follows \<^verbatim>\<open>src/index.ts\<close>.
\<close>

datatype json =
    JNull
  | JBool bool
  | JNum int
  | JStr string
  | JArr "json list"
  | JObj "(string \<times> json) list"

text \<open>
  A thrown value: an \<^verbatim>\<open>Error\<close> object with its \<^verbatim>\<open>message\<close>, or any other value, kept as
  the text \<^verbatim>\<open>String(err)\<close> yields for it.
\<close>

datatype js_thrown = Js_error string | Js_value string

text \<open>\<^verbatim>\<open>if (v)\<close> on a parsed JSON value.\<close>

fun truthy :: "json \<Rightarrow> bool" where
  "truthy JNull = False"
| "truthy (JBool b) = b"
| "truthy (JNum n) = (n \<noteq> 0)"
| "truthy (JStr s) = (s \<noteq> [])"
| "truthy (JArr xs) = True"
| "truthy (JObj kvs) = True"

text \<open>
  \<^verbatim>\<open>v.name\<close> on a parsed JSON value that is not null: the member of an object (the last
  one when the text repeated the key), \<^verbatim>\<open>undefined\<close> (\<open>None\<close>) otherwise.
\<close>

fun get_prop :: "json \<Rightarrow> string \<Rightarrow> json option" where
  "get_prop (JObj kvs) name = map_of (rev kvs) name"
| "get_prop v name = None"

text \<open>
  A field of \<^verbatim>\<open>req.body\<close> or \<^verbatim>\<open>req.query\<close> is a string or is missing (\<^verbatim>\<open>undefined\<close>).
  String concatenation and template literals render a missing field as the text
  \<^verbatim>\<open>undefined\<close>.
\<close>

definition js_string :: "string option \<Rightarrow> string" where
  "js_string v = (case v of None \<Rightarrow> ''undefined'' | Some s \<Rightarrow> s)"

text \<open>A template literal renders the number \<^verbatim>\<open>Date.now()\<close> in decimal.\<close>

fun show_nat :: "nat \<Rightarrow> string" where
  "show_nat n =
     (if n < 10 then [''0123456789'' ! n]
      else show_nat (n div 10) @ [''0123456789'' ! (n mod 10)])"

section \<open>The \<^verbatim>\<open>crypto\<close> module\<close>

text \<open>
  The digests come from Node's \<^verbatim>\<open>crypto\<close> module, which is not part of the repository:
  the MD5 and HMAC-SHA256 digests are parameters, as byte strings. \<^verbatim>\<open>digest('hex')\<close>
  writes every byte as two lowercase hexadecimal digits.
\<close>

record crypto =
  md5 :: "string \<Rightarrow> 8 word list"
  hmac_sha256 :: "string \<Rightarrow> string \<Rightarrow> 8 word list"

definition hex_digit :: "nat \<Rightarrow> char" where
  "hex_digit n = ''0123456789abcdef'' ! n"

definition hex_byte :: "8 word \<Rightarrow> string" where
  "hex_byte b = [hex_digit (unat b div 16), hex_digit (unat b mod 16)]"

definition digest_hex :: "8 word list \<Rightarrow> string" where
  "digest_hex bs = concat (map hex_byte bs)"

definition is_lower_hex :: "string \<Rightarrow> bool" where
  "is_lower_hex s = list_all (\<lambda>c. c \<in> set ''0123456789abcdef'') s"

text \<open>The cache key of a trade: the MD5 of the three fields, concatenated.\<close>

definition generateCacheKey :: "crypto \<Rightarrow> string \<Rightarrow> string \<Rightarrow> string \<Rightarrow> string" where
  "generateCacheKey c apiKey symbol orderId =
     (let query = '''' @ apiKey @ symbol @ orderId
      in digest_hex (md5 c query) @ ''.json'')"

section \<open>Results, requests to the prover, the server state\<close>

datatype 'a result = Success 'a | Failure string

datatype match_type = Regex | Contains

record response_match =
  match_type :: match_type
  match_value :: string

text \<open>
  A proof is a JavaScript object (always truthy), here its members. The third argument
  of \<^verbatim>\<open>zkFetch\<close> (the secret options) and the retry arguments are optional.
\<close>

type_synonym zk_proof = "(string \<times> json) list"

record secret_options =
  headers :: "(string \<times> string option) list"
  responseMatches :: "response_match list option"

record zk_request =
  url :: string
  http_method :: string
  secretOptions :: "secret_options option"
  retries :: "nat option"
  retryInterval :: "nat option"

text \<open>
  A file of the cache directory holds text that \<^verbatim>\<open>JSON.parse\<close> reads as a value, or text
  it rejects with a \<^verbatim>\<open>SyntaxError\<close> of the given message. \<^verbatim>\<open>JSON.stringify\<close> of a JSON
  value is text of the first kind, read back as the same value.
\<close>

datatype cache_file = Json_text json | Bad_text string

record server_state =
  files :: "string \<rightharpoonup> cache_file"
  prover_calls :: "zk_request list"
  axios_calls :: "string list"

text \<open>
  What the outside world answers during one request: the clock, the exchange (through
  \<^verbatim>\<open>axios\<close>), the proving library, the file system, and the environment variables read
  at start-up. \<open>server_time\<close> is the outcome of fetching \<^verbatim>\<open>/fapi/v1/time\<close> and reading
  \<^verbatim>\<open>timeResp.data.serverTime\<close>, as the text a template literal renders for it.
\<close>

record env =
  date_now :: nat
  date_now_write :: nat
  server_time :: "js_thrown + string"
  axios_get :: "string \<Rightarrow> (string \<times> string option) list \<Rightarrow> js_thrown + json"
  zkFetch :: "zk_request \<Rightarrow> js_thrown + zk_proof option"
  verifySignedProof :: "zk_proof \<Rightarrow> js_thrown + bool"
  transformForOnchain :: "zk_proof \<Rightarrow> js_thrown + json"
  writeFileSync_error :: "string \<Rightarrow> js_thrown option"
  API_KEY :: "string option"
  API_SECRET :: "string option"

text \<open>
  What a client observes of a handler: a response with a status and a body, no response
  at all (the handler finished without touching \<^verbatim>\<open>res\<close>), or an exception that left the
  handler uncaught.
\<close>

datatype body =
    Json_body "json option"
  | Text_body string
  | Caught_body js_thrown
  | Error_json js_thrown
  | View_body string json

datatype http_outcome = Sent nat body | No_response | Unhandled js_thrown

record trade_body =
  api_key :: "string option"
  api_secret :: "string option"
  symbol :: "string option"
  order_id :: "string option"

record asset_body =
  asset_api_key :: "string option"
  asset_api_secret :: "string option"
  asset :: "string option"

section \<open>Cache store and signer\<close>

definition readCache :: "server_state \<Rightarrow> string \<Rightarrow> js_thrown + json option" where
  "readCache s cacheFile =
     (case files s cacheFile of
        None \<Rightarrow> Inr None
      | Some (Json_text v) \<Rightarrow> Inr (Some v)
      | Some (Bad_text msg) \<Rightarrow> Inl (Js_error msg))"

definition writeCache :: "env \<Rightarrow> server_state \<Rightarrow> string \<Rightarrow> json \<Rightarrow> js_thrown + server_state" where
  "writeCache e s cacheFile d =
     (case writeFileSync_error e cacheFile of
        Some err \<Rightarrow> Inl err
      | None \<Rightarrow>
          Inr (s\<lparr>files := (files s)(cacheFile \<mapsto>
                 Json_text (JObj [(''data'', d), (''cachedAt'', JNum (int (date_now_write e)))]))\<rparr>))"

definition createSignature :: "crypto \<Rightarrow> string \<Rightarrow> string \<Rightarrow> string" where
  "createSignature c queryString secret = digest_hex (hmac_sha256 c secret queryString)"

text \<open>
  \<^verbatim>\<open>crypto.createHmac\<close> throws a \<^verbatim>\<open>TypeError\<close> when the key is \<^verbatim>\<open>undefined\<close>, which is what
  a handler passes when the secret is missing.
\<close>

definition createSignature_js :: "crypto \<Rightarrow> string \<Rightarrow> string option \<Rightarrow> js_thrown + string" where
  \<open>createSignature_js c queryString secret =
     (case secret of
        None \<Rightarrow> Inl (Js_error ''The "key" argument must be of type string or an instance of ArrayBuffer, Buffer, TypedArray, DataView, KeyObject, or CryptoKey. Received undefined'')
      | Some k \<Rightarrow> Inr (createSignature c queryString k))\<close>

section \<open>Proof requester\<close>

definition errorMessage :: "js_thrown \<Rightarrow> string" where
  "errorMessage err = (case err of Js_error msg \<Rightarrow> msg | Js_value txt \<Rightarrow> txt)"

definition proofData_json :: "json \<Rightarrow> zk_proof \<Rightarrow> json" where
  "proofData_json proofData proof = JObj [(''transformedProof'', proofData), (''proof'', JObj proof)]"

definition generateProof_request :: "string \<Rightarrow> response_match list \<Rightarrow> string option \<Rightarrow> zk_request" where
  "generateProof_request u matches apiKey =
     \<lparr>url = u, http_method = ''GET'',
      secretOptions = Some \<lparr>headers = [(''X-MBX-APIKEY'', apiKey)], responseMatches = Some matches\<rparr>,
      retries = Some 3, retryInterval = Some 5000\<rparr>"

definition generateProof ::
  "env \<Rightarrow> server_state \<Rightarrow> string \<Rightarrow> response_match list \<Rightarrow> string option
     \<Rightarrow> json result \<times> server_state" where
  "generateProof e s u matches apiKey =
     (let rq = generateProof_request u matches apiKey;
          s' = s\<lparr>prover_calls := prover_calls s @ [rq]\<rparr>
      in case zkFetch e rq of
           Inl err \<Rightarrow> (Failure (errorMessage err), s')
         | Inr None \<Rightarrow> (Failure ''Failed to generate proof'', s')
         | Inr (Some proof) \<Rightarrow>
             (case verifySignedProof e proof of
                Inl err \<Rightarrow> (Failure (errorMessage err), s')
              | Inr False \<Rightarrow> (Failure ''Proof is invalid'', s')
              | Inr True \<Rightarrow>
                  (case transformForOnchain e proof of
                     Inl err \<Rightarrow> (Failure (errorMessage err), s')
                   | Inr proofData \<Rightarrow> (Success (proofData_json proofData proof), s'))))"

definition withoutContext_request :: "string \<Rightarrow> string option \<Rightarrow> zk_request" where
  "withoutContext_request u apiKey =
     \<lparr>url = u, http_method = ''GET'',
      secretOptions = Some \<lparr>headers = [(''X-MBX-APIKEY'', apiKey)], responseMatches = None\<rparr>,
      retries = None, retryInterval = None\<rparr>"

definition generateProofWithoutContext ::
  "env \<Rightarrow> server_state \<Rightarrow> string \<Rightarrow> string option \<Rightarrow> json result \<times> server_state" where
  "generateProofWithoutContext e s u apiKey =
     (let rq = withoutContext_request u apiKey;
          s' = s\<lparr>prover_calls := prover_calls s @ [rq]\<rparr>
      in case zkFetch e rq of
           Inl err \<Rightarrow> (Failure (errorMessage err), s')
         | Inr None \<Rightarrow> (Failure ''Failed to generate proof'', s')
         | Inr (Some proof) \<Rightarrow>
             (case verifySignedProof e proof of
                Inl err \<Rightarrow> (Failure (errorMessage err), s')
              | Inr False \<Rightarrow> (Failure ''Proof is invalid'', s')
              | Inr True \<Rightarrow>
                  (case transformForOnchain e proof of
                     Inl err \<Rightarrow> (Failure (errorMessage err), s')
                   | Inr proofData \<Rightarrow> (Success (proofData_json proofData proof), s'))))"

section \<open>HTTP facade\<close>

subsection \<open>\<^verbatim>\<open>GET /\<close>\<close>

definition timeUrl :: string where
  "timeUrl = ''https://fapi.binance.com'' @ ''/fapi/v1/time''"

definition tradesQueryString :: "string \<Rightarrow> string option \<Rightarrow> string" where
  "tradesQueryString timestamp qsymbol =
     ''timestamp='' @ timestamp @ ''&symbol='' @ js_string qsymbol @ ''&recvWindow=60000''"

definition signedUrl :: "string \<Rightarrow> string \<Rightarrow> string \<Rightarrow> string \<Rightarrow> string" where
  "signedUrl base endpoint queryString signature =
     base @ endpoint @ ''?'' @ queryString @ ''&signature='' @ signature"

text \<open>
  The first \<^verbatim>\<open>try\<close> covers the server-time fetch; the signature is computed between the
  two \<^verbatim>\<open>try\<close> blocks, with the secret of the environment.
\<close>

definition getTrades ::
  "crypto \<Rightarrow> env \<Rightarrow> server_state \<Rightarrow> string option \<Rightarrow> http_outcome \<times> server_state" where
  "getTrades c e s qsymbol =
     (let s1 = s\<lparr>axios_calls := axios_calls s @ [timeUrl]\<rparr>
      in case server_time e of
           Inl err \<Rightarrow> (Sent 500 (Error_json err), s1)
         | Inr timestamp \<Rightarrow>
             (let queryString = tradesQueryString timestamp qsymbol
              in case createSignature_js c queryString (API_SECRET e) of
                   Inl err \<Rightarrow> (Unhandled err, s1)
                 | Inr signature \<Rightarrow>
                     (let u = signedUrl ''https://fapi.binance.com'' ''/fapi/v1/userTrades''
                                queryString signature;
                          s2 = s1\<lparr>axios_calls := axios_calls s1 @ [u]\<rparr>
                      in case axios_get e u [(''X-MBX-APIKEY'', API_KEY e)] of
                           Inl err \<Rightarrow> (Sent 500 (Error_json err), s2)
                         | Inr trades \<Rightarrow> (Sent 200 (View_body ''trades'' trades), s2))))"

subsection \<open>\<^verbatim>\<open>POST /generateUSDMTradeProof\<close>\<close>

definition tradeQueryString :: "string \<Rightarrow> trade_body \<Rightarrow> string" where
  "tradeQueryString timestamp b =
     ''timestamp='' @ timestamp @ ''&symbol='' @ js_string (symbol b)
       @ ''&orderId='' @ js_string (order_id b) @ ''&recvWindow=60000''"

definition tradeMatches :: "response_match list" where
  \<open>tradeMatches =
     [\<lparr>match_type = Regex,
       match_value = ''"orderId":'' @ [CHR 0x5C] @ ''s*(?<orderId>['' @ [CHR 0x5C] @ ''d.]+)''\<rparr>]\<close>

text \<open>The timestamp of the signed request: the exchange's server time when the fetch
  succeeded, the local clock otherwise.\<close>

definition tradeTimestamp :: "env \<Rightarrow> string" where
  "tradeTimestamp e =
     (case server_time e of
        Inl err \<Rightarrow> show_nat (date_now e)
      | Inr t \<Rightarrow> t)"

definition tradeCacheKey :: "crypto \<Rightarrow> trade_body \<Rightarrow> string" where
  "tradeCacheKey c b =
     generateCacheKey c (js_string (api_key b)) (js_string (symbol b)) (js_string (order_id b))"

text \<open>
  The cache is read before the \<^verbatim>\<open>try\<close> block starts. A failed server-time fetch is
  swallowed and leaves \<^verbatim>\<open>Date.now()\<close> as the timestamp.
\<close>

definition generateUSDMTradeProof ::
  "crypto \<Rightarrow> env \<Rightarrow> server_state \<Rightarrow> trade_body \<Rightarrow> http_outcome \<times> server_state" where
  "generateUSDMTradeProof c e s b =
     (let cacheKey = tradeCacheKey c b
      in case readCache s cacheKey of
           Inl err \<Rightarrow> (Unhandled err, s)
         | Inr cache \<Rightarrow>
             if (case cache of None \<Rightarrow> False | Some v \<Rightarrow> truthy v)
             then (Sent 200 (Json_body (case cache of None \<Rightarrow> None | Some v \<Rightarrow> get_prop v ''data'')), s)
             else
               (let s1 = s\<lparr>axios_calls := axios_calls s @ [timeUrl]\<rparr>;
                    servTime = tradeTimestamp e;
                    timestamp = servTime;
                    queryString = tradeQueryString timestamp b
                in case createSignature_js c queryString (api_secret b) of
                     Inl err \<Rightarrow> (Sent 500 (Caught_body err), s1)
                   | Inr signature \<Rightarrow>
                       (case generateProof e s1
                               (signedUrl ''https://fapi.binance.com'' ''/fapi/v1/userTrades''
                                  queryString signature)
                               tradeMatches (api_key b) of
                          (rslt, s2) \<Rightarrow>
                            (case rslt of
                               Failure err \<Rightarrow> (Sent 400 (Text_body err), s2)
                             | Success d \<Rightarrow>
                                 (case writeCache e s2 cacheKey d of
                                    Inl err \<Rightarrow> (Sent 500 (Caught_body err), s2)
                                  | Inr s3 \<Rightarrow> (Sent 200 (Json_body (Some d)), s3))))))"

subsection \<open>\<^verbatim>\<open>POST /generateAssetProof\<close>\<close>

definition assetQueryString :: "string \<Rightarrow> string" where
  "assetQueryString timestamp = ''timestamp='' @ timestamp"

definition assetMatches :: "string option \<Rightarrow> response_match list" where
  \<open>assetMatches a =
     [\<lparr>match_type = Regex,
       match_value = ''"asset":'' @ [CHR 0x5C] @ ''s*"'' @ js_string a @ ''",'' @ [CHR 0x5C]
         @ ''s*"free":'' @ [CHR 0x5C] @ ''s*"(?<amount>['' @ [CHR 0x5C] @ ''d.]+)"''\<rparr>]\<close>

definition generateAssetProof ::
  "crypto \<Rightarrow> env \<Rightarrow> server_state \<Rightarrow> asset_body \<Rightarrow> http_outcome \<times> server_state" where
  "generateAssetProof c e s b =
     (let timestamp = show_nat (date_now e);
          queryString = assetQueryString timestamp
      in case createSignature_js c queryString (asset_api_secret b) of
           Inl err \<Rightarrow> (Sent 500 (Caught_body err), s)
         | Inr signature \<Rightarrow>
             (case generateProof e s
                     (signedUrl ''https://api.binance.com'' ''/api/v3/account'' queryString signature)
                     (assetMatches (asset b)) (asset_api_key b) of
                (rslt, s2) \<Rightarrow>
                  (case rslt of
                     Failure err \<Rightarrow> (Sent 400 (Text_body err), s2)
                   | Success d \<Rightarrow> (Sent 200 (Json_body (Some d)), s2))))"

subsection \<open>\<^verbatim>\<open>POST /debugproxy\<close>\<close>

definition debugproxy_request :: zk_request where
  "debugproxy_request =
     \<lparr>url = ''https://browserleaks.com/ip'', http_method = ''GET'',
      secretOptions = None, retries = None, retryInterval = None\<rparr>"

text \<open>
  Every branch of the handler ends in \<^verbatim>\<open>return {success: ...}\<close>: the object is the value
  the handler returns, and \<^verbatim>\<open>res\<close> is never used. The model keeps both what the client
  observes and the returned value.
\<close>

definition debugproxy ::
  "env \<Rightarrow> server_state \<Rightarrow> (http_outcome \<times> json result) \<times> server_state" where
  "debugproxy e s =
     (let rq = debugproxy_request;
          s' = s\<lparr>prover_calls := prover_calls s @ [rq]\<rparr>
      in case zkFetch e rq of
           Inl err \<Rightarrow> ((No_response, Failure (errorMessage err)), s')
         | Inr None \<Rightarrow> ((No_response, Failure ''Failed to generate proof''), s')
         | Inr (Some proof) \<Rightarrow>
             (case verifySignedProof e proof of
                Inl err \<Rightarrow> ((No_response, Failure (errorMessage err)), s')
              | Inr False \<Rightarrow> ((No_response, Failure ''Proof is invalid''), s')
              | Inr True \<Rightarrow>
                  (case transformForOnchain e proof of
                     Inl err \<Rightarrow> ((No_response, Failure (errorMessage err)), s')
                   | Inr proofData \<Rightarrow>
                       ((No_response, Success (proofData_json proofData proof)), s'))))"

section \<open>Derived notions used in the statements\<close>

text \<open>The URL the trade-proof handler hands to the prover when the secret is \<open>sec\<close>.\<close>

definition tradeProofUrl :: "crypto \<Rightarrow> env \<Rightarrow> trade_body \<Rightarrow> string \<Rightarrow> string" where
  "tradeProofUrl c e b sec =
     (let queryString = tradeQueryString (tradeTimestamp e) b
      in signedUrl ''https://fapi.binance.com'' ''/fapi/v1/userTrades'' queryString
           (createSignature c queryString sec))"

text \<open>The URL the asset-proof handler hands to the prover when the secret is \<open>sec\<close>.\<close>

definition assetProofUrl :: "crypto \<Rightarrow> env \<Rightarrow> string \<Rightarrow> string" where
  "assetProofUrl c e sec =
     (let queryString = assetQueryString (show_nat (date_now e))
      in signedUrl ''https://api.binance.com'' ''/api/v3/account'' queryString
           (createSignature c queryString sec))"

text \<open>The state in which the handler reaches the prover: the server-time fetch is logged.\<close>

definition afterTimeFetch :: "server_state \<Rightarrow> server_state" where
  "afterTimeFetch s = s\<lparr>axios_calls := axios_calls s @ [timeUrl]\<rparr>"

text \<open>A cache miss: no file under the key, or a file whose value is falsy.\<close>

definition cacheMiss :: "server_state \<Rightarrow> string \<Rightarrow> bool" where
  "cacheMiss s cacheKey =
     (case files s cacheKey of
        None \<Rightarrow> True
      | Some (Json_text v) \<Rightarrow> \<not> truthy v
      | Some (Bad_text msg) \<Rightarrow> False)"

text \<open>The entry \<^verbatim>\<open>writeCache\<close> stores for the data \<open>d\<close>.\<close>

definition cacheEntry :: "env \<Rightarrow> json \<Rightarrow> cache_file" where
  "cacheEntry e d = Json_text (JObj [(''data'', d), (''cachedAt'', JNum (int (date_now_write e)))])"

text \<open>
  The error thrown on the way through the proof flow for the request \<open>rq\<close>, if any: by
  the prover, by the verification of the proof it returned, or by the transformation
  of a verified proof.
\<close>

definition thrownInFlow :: "env \<Rightarrow> zk_request \<Rightarrow> js_thrown option" where
  "thrownInFlow e rq =
     (case zkFetch e rq of
        Inl err \<Rightarrow> Some err
      | Inr None \<Rightarrow> None
      | Inr (Some proof) \<Rightarrow>
          (case verifySignedProof e proof of
             Inl err \<Rightarrow> Some err
           | Inr False \<Rightarrow> None
           | Inr True \<Rightarrow>
               (case transformForOnchain e proof of
                  Inl err \<Rightarrow> Some err
                | Inr proofData \<Rightarrow> None)))"

section \<open>Concrete requests\<close>

text \<open>
  Stand-ins for the two digests, a prover that answers every request with a valid
  proof, an empty cache and two request bodies: the inputs the statements below are
  run on.
\<close>

definition example_crypto :: crypto where
  "example_crypto =
     \<lparr>md5 = (\<lambda>m. map of_char m),
      hmac_sha256 = (\<lambda>k m. [of_nat (length k), of_nat (length m)])\<rparr>"

definition example_proof :: zk_proof where
  "example_proof = [(''identifier'', JStr ''0xabc'')]"

definition example_env :: env where
  "example_env =
     \<lparr>date_now = 5, date_now_write = 7, server_time = Inr ''3'',
      axios_get = (\<lambda>u h. Inr (JArr [])),
      zkFetch = (\<lambda>rq. Inr (Some example_proof)),
      verifySignedProof = (\<lambda>p. Inr True),
      transformForOnchain = (\<lambda>p. Inr (JObj [(''signedClaim'', JObj p)])),
      writeFileSync_error = (\<lambda>f. None),
      API_KEY = Some ''k'', API_SECRET = Some ''s''\<rparr>"

definition example_state :: server_state where
  "example_state = \<lparr>files = Map.empty, prover_calls = [], axios_calls = []\<rparr>"

definition example_trade :: trade_body where
  "example_trade =
     \<lparr>api_key = Some ''k'', api_secret = Some ''s'', symbol = Some ''BTCUSDT'', order_id = Some ''123''\<rparr>"

definition example_asset :: asset_body where
  "example_asset = \<lparr>asset_api_key = Some ''k'', asset_api_secret = Some ''s'', asset = Some ''BTC''\<rparr>"

text \<open>The data of the proof of \<open>example_env\<close>, and the state after it has been cached.\<close>

definition example_data :: json where
  "example_data = proofData_json (JObj [(''signedClaim'', JObj example_proof)]) example_proof"

definition example_cached :: server_state where
  "example_cached =
     \<lparr>files = [tradeCacheKey example_crypto example_trade \<mapsto> cacheEntry example_env example_data],
      prover_calls = [generateProof_request
         (tradeProofUrl example_crypto example_env example_trade ''s'') tradeMatches (Some ''k'')],
      axios_calls = [timeUrl]\<rparr>"

text \<open>A cache directory whose file for the example trade was cut short.\<close>

definition example_bad_cache :: server_state where
  "example_bad_cache =
     example_state\<lparr>files := [tradeCacheKey example_crypto example_trade \<mapsto>
                              Bad_text ''Unexpected end of JSON input'']\<rparr>"

text \<open>
  Three more provers: one that returns no proof, one that throws an error whose message
  is the text of the no-proof failure, and one that returns a proof only for a request
  that carries secret options.
\<close>

definition example_env_no_proof :: env where
  "example_env_no_proof = example_env\<lparr>zkFetch := (\<lambda>rq. Inr None)\<rparr>"

definition example_env_throwing :: env where
  "example_env_throwing =
     example_env\<lparr>zkFetch := (\<lambda>rq. Inl (Js_error ''Failed to generate proof''))\<rparr>"

definition example_env_needs_options :: env where
  "example_env_needs_options =
     example_env\<lparr>zkFetch := (\<lambda>rq. case secretOptions rq of
                                       None \<Rightarrow> Inr None
                                     | Some opts \<Rightarrow> Inr (Some example_proof))\<rparr>"

section \<open>Hexadecimal digests\<close>

text \<open>The hexadecimal form of a digest is lowercase, twice as long, and loses nothing.\<close>

lemma hex_digit_lower: "n < 16 \<Longrightarrow> hex_digit n \<in> set ''0123456789abcdef''"
  unfolding hex_digit_def by (rule nth_mem) simp

lemma hex_digit_inj: "m < 16 \<Longrightarrow> n < 16 \<Longrightarrow> hex_digit m = hex_digit n \<Longrightarrow> m = n"
proof -
  assume m: "m < 16" and n: "n < 16" and eq: "hex_digit m = hex_digit n"
  have d: "distinct ''0123456789abcdef''" by simp
  have l: "length ''0123456789abcdef'' = 16" by simp
  from eq show "m = n"
    unfolding hex_digit_def using nth_eq_iff_index_eq [OF d, of m n] m n l by simp
qed

lemma unat_byte_div: "unat (b :: 8 word) div 16 < 16"
proof -
  have "unat b < 256" using unsigned_less [of b, where ?'a = nat] by simp
  then show ?thesis by simp
qed

lemma hex_byte_inj: "hex_byte a = hex_byte b \<Longrightarrow> a = b"
proof -
  assume eq: "hex_byte a = hex_byte b"
  then have hi: "hex_digit (unat a div 16) = hex_digit (unat b div 16)"
    and lo: "hex_digit (unat a mod 16) = hex_digit (unat b mod 16)"
    by (simp_all add: hex_byte_def)
  from hi have 1: "unat a div 16 = unat b div 16"
    by (rule hex_digit_inj [OF unat_byte_div unat_byte_div])
  from lo have 2: "unat a mod 16 = unat b mod 16"
    by (rule hex_digit_inj [rotated 2]) simp_all
  have "unat a = unat b"
    using 1 2 by (metis div_mult_mod_eq)
  then show "a = b" by (simp add: word_unat_eq_iff)
qed

lemma hex_byte_length: "length (hex_byte b) = 2"
  by (simp add: hex_byte_def)

lemma digest_hex_inj: "digest_hex xs = digest_hex ys \<Longrightarrow> xs = ys"
proof (induction xs arbitrary: ys)
  case Nil
  then show ?case by (cases ys) (simp_all add: digest_hex_def hex_byte_def)
next
  case (Cons x xs)
  show ?case
  proof (cases ys)
    case Nil
    with Cons.prems show ?thesis by (simp add: digest_hex_def hex_byte_def)
  next
    case (Cons y ys')
    with Cons.prems have "hex_byte x @ digest_hex xs = hex_byte y @ digest_hex ys'"
      by (simp add: digest_hex_def)
    then have "hex_byte x = hex_byte y \<and> digest_hex xs = digest_hex ys'"
      by (simp add: hex_byte_length)
    with Cons.IH Cons show ?thesis by (simp add: hex_byte_inj)
  qed
qed

lemma digest_hex_length: "length (digest_hex bs) = 2 * length bs"
  by (induction bs) (simp_all add: digest_hex_def hex_byte_def)

lemma digest_hex_lower: "is_lower_hex (digest_hex bs)"
proof (induction bs)
  case Nil
  then show ?case by (simp add: digest_hex_def is_lower_hex_def)
next
  case (Cons b bs)
  have "unat b mod 16 < 16" by simp
  then have "hex_digit (unat b mod 16) \<in> set ''0123456789abcdef''"
    by (rule hex_digit_lower)
  moreover have "hex_digit (unat b div 16) \<in> set ''0123456789abcdef''"
    by (rule hex_digit_lower [OF unat_byte_div])
  ultimately show ?case
    using Cons by (simp add: digest_hex_def is_lower_hex_def hex_byte_def)
qed

lemmas example_defs = example_crypto_def example_env_def example_state_def example_trade_def
  example_asset_def example_proof_def

lemmas hex_defs = digest_hex_def hex_byte_def hex_digit_def

section \<open>Signer\<close>

text \<open>
  Claim C8. For every query string and secret, \<open>createSignature\<close> is a function of its
  two arguments alone (equal inputs give equal output), and its output is the lowercase
  hexadecimal form, two digits a byte, of the HMAC-SHA256 digest of the query string
  under the secret.
\<close>

theorem createSignature_hex_hmac:
  "createSignature c queryString secret = digest_hex (hmac_sha256 c secret queryString)
   \<and> is_lower_hex (createSignature c queryString secret)
   \<and> length (createSignature c queryString secret) = 2 * length (hmac_sha256 c secret queryString)
   \<and> (\<forall>queryString' secret'. queryString' = queryString \<and> secret' = secret \<longrightarrow>
         createSignature c queryString' secret' = createSignature c queryString secret)"
  by (simp add: createSignature_def digest_hex_lower digest_hex_length)

theorem createSignature_hex_hmac_witness:
  "createSignature example_crypto ''timestamp=5'' ''s'' = ''010b''
   \<and> is_lower_hex ''010b''
   \<and> length ''010b'' = 2 * length (hmac_sha256 example_crypto ''s'' ''timestamp=5'')"
  using createSignature_hex_hmac [of example_crypto "''timestamp=5''" "''s''"]
  by (simp add: example_crypto_def createSignature_def is_lower_hex_def hex_defs)

section \<open>Cache keys\<close>

text \<open>
  Claim C4, as amended. \<open>generateCacheKey\<close> is a function of the triple (equal triples
  give equal keys), and the keys of two triples differ exactly when MD5 tells the two
  concatenations \<open>apiKey @ symbol @ orderId\<close> apart. The key depends on the triple only
  through that concatenation.
\<close>

theorem generateCacheKey_differs_iff:
  "(apiKey' = apiKey \<and> smb' = smb \<and> orderId' = orderId \<longrightarrow>
      generateCacheKey c apiKey' smb' orderId' = generateCacheKey c apiKey smb orderId)
   \<and> (generateCacheKey c apiKey' smb' orderId' \<noteq> generateCacheKey c apiKey smb orderId
        \<longleftrightarrow> md5 c (apiKey' @ smb' @ orderId') \<noteq> md5 c (apiKey @ smb @ orderId))"
  by (auto simp add: generateCacheKey_def dest: digest_hex_inj)

theorem generateCacheKey_differs_iff_witness:
  "generateCacheKey example_crypto ''k'' ''B'' ''2'' \<noteq> generateCacheKey example_crypto ''k'' ''B'' ''1''
   \<and> md5 example_crypto (''k'' @ ''B'' @ ''2'') \<noteq> md5 example_crypto (''k'' @ ''B'' @ ''1'')"
  using generateCacheKey_differs_iff [of "''k''" "''k''" "''B''" "''B''" "''2''" "''1''" example_crypto]
  by (simp add: example_crypto_def)

text \<open>
  Claim C4 as stated fails: two different triples with the same concatenation have the
  same key, and no collision of the hash is involved, since it is applied to one and
  the same text.
\<close>

theorem generateCacheKey_concat_collision:
  "(''ab'', ''c'', ''1'') \<noteq> (''a'', ''bc'', ''1'')
   \<and> ''ab'' @ ''c'' @ ''1'' = ''a'' @ ''bc'' @ ''1''
   \<and> generateCacheKey example_crypto ''ab'' ''c'' ''1'' = generateCacheKey example_crypto ''a'' ''bc'' ''1''"
  by (simp add: generateCacheKey_def)

section \<open>The trade-proof handler, case by case\<close>

lemma generateProof_calls:
  "snd (generateProof e s u ms k) = s\<lparr>prover_calls := prover_calls s @ [generateProof_request u ms k]\<rparr>"
  by (simp add: generateProof_def Let_def split: sum.split option.split bool.split)

lemma generateProof_files: "files (snd (generateProof e s u ms k)) = files s"
  by (simp add: generateProof_calls)

lemma trade_hit:
  "files s (tradeCacheKey c b) = Some (Json_text v) \<Longrightarrow> truthy v \<Longrightarrow>
   generateUSDMTradeProof c e s b = (Sent 200 (Json_body (get_prop v ''data'')), s)"
  by (simp add: generateUSDMTradeProof_def readCache_def Let_def)

lemma trade_bad:
  "files s (tradeCacheKey c b) = Some (Bad_text msg) \<Longrightarrow>
   generateUSDMTradeProof c e s b = (Unhandled (Js_error msg), s)"
  by (simp add: generateUSDMTradeProof_def readCache_def Let_def)

lemma trade_miss:
  "cacheMiss s (tradeCacheKey c b) \<Longrightarrow> api_secret b = Some sec \<Longrightarrow>
   generateUSDMTradeProof c e s b =
     (case generateProof e (afterTimeFetch s) (tradeProofUrl c e b sec) tradeMatches (api_key b) of
        (rslt, s2) \<Rightarrow>
          (case rslt of
             Failure err \<Rightarrow> (Sent 400 (Text_body err), s2)
           | Success d \<Rightarrow>
               (case writeFileSync_error e (tradeCacheKey c b) of
                  Some err \<Rightarrow> (Sent 500 (Caught_body err), s2)
                | None \<Rightarrow> (Sent 200 (Json_body (Some d)),
                            s2\<lparr>files := (files s2)(tradeCacheKey c b \<mapsto> cacheEntry e d)\<rparr>))))"
  by (auto simp add: generateUSDMTradeProof_def readCache_def cacheMiss_def Let_def
      createSignature_js_def tradeProofUrl_def afterTimeFetch_def writeCache_def cacheEntry_def
      split: option.splits cache_file.splits prod.splits result.splits)

lemma trade_miss_no_secret:
  "cacheMiss s (tradeCacheKey c b) \<Longrightarrow> api_secret b = None \<Longrightarrow>
   \<exists>err. generateUSDMTradeProof c e s b = (Sent 500 (Caught_body err), afterTimeFetch s)"
  by (auto simp add: generateUSDMTradeProof_def readCache_def cacheMiss_def Let_def
      createSignature_js_def afterTimeFetch_def
      split: option.splits cache_file.splits)

lemma cache_cases:
  "cacheMiss s k \<or> (\<exists>v. files s k = Some (Json_text v) \<and> truthy v) \<or> (\<exists>msg. files s k = Some (Bad_text msg))"
  by (auto simp add: cacheMiss_def split: option.splits cache_file.splits)

lemma tradeCacheKey_cong:
  "api_key b' = api_key b \<Longrightarrow> symbol b' = symbol b \<Longrightarrow> order_id b' = order_id b \<Longrightarrow>
   tradeCacheKey c b' = tradeCacheKey c b"
  by (simp add: tradeCacheKey_def)

text \<open>Every 200 of the trade handler leaves a truthy entry under the key, whose data is the body.\<close>

lemma trade_200_entry:
  assumes "generateUSDMTradeProof c e s b = (Sent 200 r, s')"
  shows "\<exists>v. files s' (tradeCacheKey c b) = Some (Json_text v) \<and> truthy v
            \<and> r = Json_body (get_prop v ''data'')"
proof -
  consider (miss) "cacheMiss s (tradeCacheKey c b)"
    | (hit) v where "files s (tradeCacheKey c b) = Some (Json_text v)" "truthy v"
    | (bad) msg where "files s (tradeCacheKey c b) = Some (Bad_text msg)"
    using cache_cases by blast
  then show ?thesis
  proof cases
    case miss
    show ?thesis
    proof (cases "api_secret b")
      case None
      with miss trade_miss_no_secret [of s c b e] assms show ?thesis by auto
    next
      case (Some sec)
      from assms show ?thesis
        unfolding trade_miss [OF miss Some]
        by (auto simp add: cacheEntry_def split: prod.splits result.splits option.splits)
    qed
  next
    case hit
    with assms show ?thesis by (simp add: trade_hit)
  next
    case bad
    with assms show ?thesis by (simp add: trade_bad)
  qed
qed

lemma trade_written_only_on_success:
  assumes "generateUSDMTradeProof c e s b = (out, s')"
  shows "files s' = files s \<or>
         (\<exists>d sec s2. api_secret b = Some sec
            \<and> generateProof e (afterTimeFetch s) (tradeProofUrl c e b sec) tradeMatches (api_key b)
                 = (Success d, s2)
            \<and> out = Sent 200 (Json_body (Some d))
            \<and> files s' = (files s)(tradeCacheKey c b \<mapsto> cacheEntry e d))"
proof -
  consider (miss) "cacheMiss s (tradeCacheKey c b)"
    | (hit) v where "files s (tradeCacheKey c b) = Some (Json_text v)" "truthy v"
    | (bad) msg where "files s (tradeCacheKey c b) = Some (Bad_text msg)"
    using cache_cases by blast
  then show ?thesis
  proof cases
    case miss
    show ?thesis
    proof (cases "api_secret b")
      case None
      with miss trade_miss_no_secret [of s c b e] assms show ?thesis
        by (auto simp add: afterTimeFetch_def)
    next
      case (Some sec)
      obtain rslt s2 where gp:
        "generateProof e (afterTimeFetch s) (tradeProofUrl c e b sec) tradeMatches (api_key b) = (rslt, s2)"
        by (cases "generateProof e (afterTimeFetch s) (tradeProofUrl c e b sec) tradeMatches (api_key b)")
      have f2: "files s2 = files s"
        using generateProof_files [of e "afterTimeFetch s" "tradeProofUrl c e b sec" tradeMatches "api_key b"] gp
        by (simp add: afterTimeFetch_def)
      from assms show ?thesis
        unfolding trade_miss [OF miss Some] using f2 Some gp
        by (auto split: result.splits option.splits)
    qed
  next
    case hit
    with assms show ?thesis by (simp add: trade_hit)
  next
    case bad
    with assms show ?thesis by (simp add: trade_bad)
  qed
qed

lemma trade_failure_not_cached:
  assumes "cacheMiss s (tradeCacheKey c b)" "api_secret b = Some sec"
    and "generateProof e (afterTimeFetch s) (tradeProofUrl c e b sec) tradeMatches (api_key b) = (Failure msg, s2)"
  shows "generateUSDMTradeProof c e s b = (Sent 400 (Text_body msg), s2) \<and> files s2 = files s"
proof -
  have "files s2 = files s"
    using generateProof_files [of e "afterTimeFetch s" "tradeProofUrl c e b sec" tradeMatches "api_key b"] assms(3)
    by (simp add: afterTimeFetch_def)
  then show ?thesis
    unfolding trade_miss [OF assms(1,2)] assms(3) by simp
qed

lemma trade_second_request:
  assumes run: "generateUSDMTradeProof c e s b = (Sent 200 r, s')"
    and k: "api_key b' = api_key b" "symbol b' = symbol b" "order_id b' = order_id b"
  shows "generateUSDMTradeProof c e' s' b' = (Sent 200 r, s')"
proof -
  from trade_200_entry [OF run] obtain v where
    v1: "files s' (tradeCacheKey c b) = Some (Json_text v)" and v2: "truthy v"
    and v3: "r = Json_body (get_prop v ''data'')"
    by auto
  have "tradeCacheKey c b' = tradeCacheKey c b"
    using k by (simp add: tradeCacheKey_def)
  with v1 have f: "files s' (tradeCacheKey c b') = Some (Json_text v)" by simp
  show ?thesis using trade_hit [OF f v2, of e'] v3 by simp
qed


text \<open>
  Claim C1. Trade-proof operation. When a request was answered 200, a later request whose
  body has the same \<open>api_key\<close>, \<open>symbol\<close> and \<open>order_id\<close> is answered 200 with the same data,
  whatever the prover would do now, and leaves the state as it is: the prover is not
  called again. A handler run changes the cache directory only by storing, under the
  key of the request, the data of a proof result that is a \<open>Success\<close>; when the proof
  result is a \<open>Failure\<close> the answer is 400 and the cache directory is unchanged.
\<close>

theorem trade_proof_cached:
  "(generateUSDMTradeProof c e s b = (Sent 200 r, s')
      \<and> api_key b' = api_key b \<and> symbol b' = symbol b \<and> order_id b' = order_id b
    \<longrightarrow> generateUSDMTradeProof c e' s' b' = (Sent 200 r, s')
        \<and> prover_calls (snd (generateUSDMTradeProof c e' s' b')) = prover_calls s')
   \<and> (generateUSDMTradeProof c e s b = (out, s'')
    \<longrightarrow> files s'' = files s \<or>
        (\<exists>d sec s2. api_secret b = Some sec
            \<and> generateProof e (afterTimeFetch s) (tradeProofUrl c e b sec) tradeMatches (api_key b)
                 = (Success d, s2)
            \<and> out = Sent 200 (Json_body (Some d))
            \<and> files s'' = (files s)(tradeCacheKey c b \<mapsto> cacheEntry e d)))
   \<and> (cacheMiss s (tradeCacheKey c b) \<and> api_secret b = Some sec'
        \<and> generateProof e (afterTimeFetch s) (tradeProofUrl c e b sec') tradeMatches (api_key b)
             = (Failure msg, s3)
    \<longrightarrow> generateUSDMTradeProof c e s b = (Sent 400 (Text_body msg), s3) \<and> files s3 = files s)"
  (is "?hit \<and> ?only \<and> ?never")
proof -
  have 1: ?hit
  proof
    assume a: "generateUSDMTradeProof c e s b = (Sent 200 r, s')
      \<and> api_key b' = api_key b \<and> symbol b' = symbol b \<and> order_id b' = order_id b"
    have h: "generateUSDMTradeProof c e' s' b' = (Sent 200 r, s')"
      by (rule trade_second_request [of c e s b r s' b' e']) (simp_all add: a)
    show "generateUSDMTradeProof c e' s' b' = (Sent 200 r, s')
        \<and> prover_calls (snd (generateUSDMTradeProof c e' s' b')) = prover_calls s'"
      by (simp add: h)
  qed
  have 2: ?only
  proof
    assume "generateUSDMTradeProof c e s b = (out, s'')"
    then show "files s'' = files s \<or>
        (\<exists>d sec s2. api_secret b = Some sec
            \<and> generateProof e (afterTimeFetch s) (tradeProofUrl c e b sec) tradeMatches (api_key b)
                 = (Success d, s2)
            \<and> out = Sent 200 (Json_body (Some d))
            \<and> files s'' = (files s)(tradeCacheKey c b \<mapsto> cacheEntry e d))"
      by (rule trade_written_only_on_success)
  qed
  have 3: ?never
  proof
    assume a: "cacheMiss s (tradeCacheKey c b) \<and> api_secret b = Some sec'
        \<and> generateProof e (afterTimeFetch s) (tradeProofUrl c e b sec') tradeMatches (api_key b)
             = (Failure msg, s3)"
    show "generateUSDMTradeProof c e s b = (Sent 400 (Text_body msg), s3) \<and> files s3 = files s"
      by (rule trade_failure_not_cached [of s c b sec' e msg s3]) (simp_all add: a)
  qed
  from 1 2 3 show ?thesis by (intro conjI)
qed

section \<open>The example requests, run\<close>

lemma example_cache_key:
  "tradeCacheKey example_crypto example_trade = ''6b42544355534454313233.json''"
  by (simp add: tradeCacheKey_def generateCacheKey_def example_crypto_def example_trade_def
      js_string_def hex_defs)

lemma example_trade_url:
  "tradeProofUrl example_crypto example_env example_trade ''s'' =
   ''https://fapi.binance.com/fapi/v1/userTrades?timestamp=3&symbol=BTCUSDT&orderId=123&recvWindow=60000&signature=0137''"
  by (simp add: tradeProofUrl_def tradeQueryString_def tradeTimestamp_def signedUrl_def
      createSignature_def example_crypto_def example_env_def example_trade_def js_string_def hex_defs)

lemma example_generateProof:
  "generateProof example_env s u ms k =
     (Success (proofData_json (JObj [(''signedClaim'', JObj example_proof)]) example_proof),
      s\<lparr>prover_calls := prover_calls s @ [generateProof_request u ms k]\<rparr>)"
  by (simp add: generateProof_def example_env_def)

lemma example_miss: "cacheMiss example_state k"
  by (simp add: cacheMiss_def example_state_def)

lemma example_trade_run:
  "generateUSDMTradeProof example_crypto example_env example_state example_trade =
     (Sent 200 (Json_body (Some (proofData_json (JObj [(''signedClaim'', JObj example_proof)]) example_proof))),
      \<lparr>files = [tradeCacheKey example_crypto example_trade \<mapsto>
                 cacheEntry example_env
                   (proofData_json (JObj [(''signedClaim'', JObj example_proof)]) example_proof)],
       prover_calls = [generateProof_request
          (tradeProofUrl example_crypto example_env example_trade ''s'') tradeMatches (Some ''k'')],
       axios_calls = [timeUrl]\<rparr>)"
proof -
  have sec: "api_secret example_trade = Some ''s''" by (simp add: example_trade_def)
  have w: "writeFileSync_error example_env (tradeCacheKey example_crypto example_trade) = None"
    by (simp add: example_env_def)
  have k: "api_key example_trade = Some ''k''" by (simp add: example_trade_def)
  show ?thesis
    unfolding trade_miss [OF example_miss sec] example_generateProof
    by (simp add: w k afterTimeFetch_def example_state_def)
qed

section \<open>Caching of trade proofs\<close>

text \<open>
  The example trade: the first request is a miss that caches the proof; the second, with
  a prover that has no proof any more, is served from the cache; a request that fails
  on an empty cache is answered 400 and stores nothing.
\<close>

theorem trade_proof_cached_witness:
  "generateUSDMTradeProof example_crypto example_env example_state example_trade
     = (Sent 200 (Json_body (Some example_data)), example_cached)
   \<and> generateUSDMTradeProof example_crypto example_env_no_proof example_cached example_trade
     = (Sent 200 (Json_body (Some example_data)), example_cached)
   \<and> prover_calls (snd (generateUSDMTradeProof example_crypto example_env_no_proof example_cached
        example_trade)) = prover_calls example_cached
   \<and> fst (generateUSDMTradeProof example_crypto example_env_no_proof example_state example_trade)
     = Sent 400 (Text_body ''Failed to generate proof'')
   \<and> files (snd (generateUSDMTradeProof example_crypto example_env_no_proof example_state
        example_trade)) = files example_state"
proof -
  have run: "generateUSDMTradeProof example_crypto example_env example_state example_trade
     = (Sent 200 (Json_body (Some example_data)), example_cached)"
    by (simp add: example_trade_run example_data_def example_cached_def)
  note t = trade_proof_cached [where c = example_crypto and e = example_env and s = example_state
      and b = example_trade and r = "Json_body (Some example_data)" and s' = example_cached
      and b' = example_trade and e' = example_env_no_proof]
  from t [THEN conjunct1] run
  have second: "generateUSDMTradeProof example_crypto example_env_no_proof example_cached example_trade
       = (Sent 200 (Json_body (Some example_data)), example_cached)
     \<and> prover_calls (snd (generateUSDMTradeProof example_crypto example_env_no_proof example_cached
        example_trade)) = prover_calls example_cached"
    by simp
  have fail: "generateProof example_env_no_proof (afterTimeFetch example_state)
       (tradeProofUrl example_crypto example_env_no_proof example_trade ''s'') tradeMatches
       (api_key example_trade)
     = (Failure ''Failed to generate proof'',
        (afterTimeFetch example_state)\<lparr>prover_calls := prover_calls (afterTimeFetch example_state) @
          [generateProof_request (tradeProofUrl example_crypto example_env_no_proof example_trade ''s'')
             tradeMatches (api_key example_trade)]\<rparr>)"
    by (simp add: generateProof_def example_env_no_proof_def example_env_def)
  have sec: "api_secret example_trade = Some ''s''" by (simp add: example_trade_def)
  note u = trade_proof_cached [where c = example_crypto and e = example_env_no_proof
      and s = example_state and b = example_trade and sec' = "''s''"
      and msg = "''Failed to generate proof''", THEN conjunct2, THEN conjunct2, rule_format,
      OF conjI [OF example_miss conjI [OF sec fail]]]
  from u have third: "fst (generateUSDMTradeProof example_crypto example_env_no_proof example_state example_trade)
     = Sent 400 (Text_body ''Failed to generate proof'')
   \<and> files (snd (generateUSDMTradeProof example_crypto example_env_no_proof example_state
        example_trade)) = files example_state"
    by (simp add: afterTimeFetch_def)
  from run second third show ?thesis by (intro conjI) simp_all
qed

text \<open>
  Claim C9. The cache key of the trade-proof endpoint depends on \<open>api_key\<close>, \<open>symbol\<close> and
  \<open>order_id\<close> only. Two requests that agree on these three fields have the same key,
  whatever their \<open>api_secret\<close>; and once an entry is cached under it, both are answered
  200 with the cached data, the secret never being looked at.
\<close>

theorem cache_key_ignores_secret:
  assumes "api_key b' = api_key b" and "symbol b' = symbol b" and "order_id b' = order_id b"
  shows "tradeCacheKey c b' = tradeCacheKey c b
     \<and> (files s (tradeCacheKey c b) = Some (Json_text v) \<and> truthy v \<longrightarrow>
          generateUSDMTradeProof c e' s b' = (Sent 200 (Json_body (get_prop v ''data'')), s)
          \<and> generateUSDMTradeProof c e s b = (Sent 200 (Json_body (get_prop v ''data'')), s))
     \<and> (files s (tradeCacheKey c b) = Some (cacheEntry e0 d) \<longrightarrow>
          generateUSDMTradeProof c e' s b' = (Sent 200 (Json_body (Some d)), s)
          \<and> generateUSDMTradeProof c e s b = (Sent 200 (Json_body (Some d)), s))"
proof -
  have k: "tradeCacheKey c b' = tradeCacheKey c b"
    using assms by (simp add: tradeCacheKey_def)
  have 1: "generateUSDMTradeProof c e' s b' = (Sent 200 (Json_body (get_prop w ''data'')), s)
          \<and> generateUSDMTradeProof c e s b = (Sent 200 (Json_body (get_prop w ''data'')), s)"
    if "files s (tradeCacheKey c b) = Some (Json_text w)" and "truthy w" for w
  proof -
    from that(1) k have "files s (tradeCacheKey c b') = Some (Json_text w)" by simp
    from trade_hit [OF this that(2), of e'] trade_hit [OF that, of e] show ?thesis by simp
  qed
  have 2: "generateUSDMTradeProof c e' s b' = (Sent 200 (Json_body (Some d)), s)
          \<and> generateUSDMTradeProof c e s b = (Sent 200 (Json_body (Some d)), s)"
    if "files s (tradeCacheKey c b) = Some (cacheEntry e0 d)"
    using 1 [of "JObj [(''data'', d), (''cachedAt'', JNum (int (date_now_write e0)))]"] that
    by (simp add: cacheEntry_def)
  from k 1 2 show ?thesis by (intro conjI impI) simp_all
qed

text \<open>The cached example trade is served to a request that carries a wrong secret.\<close>

theorem cache_key_ignores_secret_witness:
  "tradeCacheKey example_crypto (example_trade\<lparr>api_secret := Some ''wrong''\<rparr>)
     = tradeCacheKey example_crypto example_trade
   \<and> generateUSDMTradeProof example_crypto example_env_no_proof example_cached
        (example_trade\<lparr>api_secret := Some ''wrong''\<rparr>)
     = (Sent 200 (Json_body (Some example_data)), example_cached)
   \<and> generateUSDMTradeProof example_crypto example_env example_cached example_trade
     = (Sent 200 (Json_body (Some example_data)), example_cached)"
proof -
  have f: "files example_cached (tradeCacheKey example_crypto example_trade)
             = Some (cacheEntry example_env example_data)"
    by (simp add: example_cached_def)
  note t = cache_key_ignores_secret [where b' = "example_trade\<lparr>api_secret := Some ''wrong''\<rparr>"
      and b = example_trade and c = example_crypto and s = example_cached and e0 = example_env
      and d = example_data and e' = example_env_no_proof and e = example_env]
  have "api_key (example_trade\<lparr>api_secret := Some ''wrong''\<rparr>) = api_key example_trade"
    and "symbol (example_trade\<lparr>api_secret := Some ''wrong''\<rparr>) = symbol example_trade"
    and "order_id (example_trade\<lparr>api_secret := Some ''wrong''\<rparr>) = order_id example_trade"
    by simp_all
  note t' = t [OF this]
  from t' [THEN conjunct1] t' [THEN conjunct2, THEN conjunct2, rule_format, OF f]
  show ?thesis by (intro conjI) simp_all
qed

text \<open>
  Claim C7. What the code does when the cache file of the requested trade holds text
  that \<^verbatim>\<open>JSON.parse\<close> rejects: \<open>readCache\<close> is called before the \<^verbatim>\<open>try\<close> block of the handler
  starts, so the \<^verbatim>\<open>SyntaxError\<close> leaves the handler uncaught, and no error response is
  sent by it.
\<close>

theorem malformed_cache_entry_uncaught:
  "generateUSDMTradeProof example_crypto example_env example_bad_cache example_trade
     = (Unhandled (Js_error ''Unexpected end of JSON input''), example_bad_cache)"
proof -
  have "files example_bad_cache (tradeCacheKey example_crypto example_trade)
          = Some (Bad_text ''Unexpected end of JSON input'')"
    by (simp add: example_bad_cache_def)
  then show ?thesis by (rule trade_bad)
qed

text \<open>
  Claim C6. What the code does on \<^verbatim>\<open>POST /debugproxy\<close>: for every prover and every state
  the handler sends no response at all; on the example prover, whose proof is valid, it
  returns the \<open>Success\<close> object to its caller instead of sending 200 with it.
\<close>

theorem debugproxy_sends_nothing:
  "fst (fst (debugproxy e s)) = No_response
   \<and> fst (debugproxy example_env example_state) = (No_response, Success example_data)"
proof
  show "fst (fst (debugproxy e s)) = No_response"
    by (simp add: debugproxy_def Let_def split: sum.split option.split bool.split)
  show "fst (debugproxy example_env example_state) = (No_response, Success example_data)"
    by (simp add: debugproxy_def example_env_def example_data_def)
qed

section \<open>The proof flow\<close>

text \<open>
  Claim C10, as amended. \<^verbatim>\<open>POST /debugproxy\<close> calls the prover once, with no secret
  options at all; \<open>generateProofWithoutContext\<close> calls it once with the secret options
  that hold the \<^verbatim>\<open>X-MBX-APIKEY\<close> header and no response matches, for every URL and API
  key; neither passes retry parameters. The request of the debug endpoint is the one
  \<open>generateProofWithoutContext\<close> sends for the fixed URL, without these secret options,
  and for every prover that answers the two requests alike, the value the handler
  computes is the result of \<open>generateProofWithoutContext\<close> on the fixed URL.
\<close>

theorem debugproxy_as_withoutContext:
  "debugproxy_request = (withoutContext_request ''https://browserleaks.com/ip'' apiKey)\<lparr>secretOptions := None\<rparr>
   \<and> (zkFetch e debugproxy_request = zkFetch e (withoutContext_request ''https://browserleaks.com/ip'' apiKey)
        \<longrightarrow> snd (fst (debugproxy e s))
            = fst (generateProofWithoutContext e s ''https://browserleaks.com/ip'' apiKey))
   \<and> prover_calls (snd (debugproxy e s)) = prover_calls s @ [debugproxy_request]
   \<and> secretOptions debugproxy_request = None
   \<and> prover_calls (snd (generateProofWithoutContext e s u apiKey))
        = prover_calls s @ [withoutContext_request u apiKey]
   \<and> secretOptions (withoutContext_request u apiKey)
        = Some \<lparr>headers = [(''X-MBX-APIKEY'', apiKey)], responseMatches = None\<rparr>
   \<and> url (withoutContext_request u apiKey) = u
   \<and> http_method (withoutContext_request u apiKey) = ''GET''
   \<and> retries (withoutContext_request u apiKey) = None
   \<and> retryInterval (withoutContext_request u apiKey) = None"
proof -
  have 1: "debugproxy_request = (withoutContext_request ''https://browserleaks.com/ip'' apiKey)\<lparr>secretOptions := None\<rparr>"
    by (simp add: debugproxy_request_def withoutContext_request_def)
  have 2: "zkFetch e debugproxy_request = zkFetch e (withoutContext_request ''https://browserleaks.com/ip'' apiKey)
        \<longrightarrow> snd (fst (debugproxy e s))
            = fst (generateProofWithoutContext e s ''https://browserleaks.com/ip'' apiKey)"
    by (simp add: debugproxy_def generateProofWithoutContext_def Let_def
        split: sum.split option.split bool.split)
  have 3: "prover_calls (snd (debugproxy e s)) = prover_calls s @ [debugproxy_request]"
    by (simp add: debugproxy_def Let_def split: sum.split option.split bool.split)
  have 4: "prover_calls (snd (generateProofWithoutContext e s u apiKey))
        = prover_calls s @ [withoutContext_request u apiKey]"
    by (simp add: generateProofWithoutContext_def Let_def split: sum.split option.split bool.split)
  have 5: "secretOptions debugproxy_request = None"
    "secretOptions (withoutContext_request u apiKey)
        = Some \<lparr>headers = [(''X-MBX-APIKEY'', apiKey)], responseMatches = None\<rparr>"
    "url (withoutContext_request u apiKey) = u"
    "http_method (withoutContext_request u apiKey) = ''GET''"
    "retries (withoutContext_request u apiKey) = None"
    "retryInterval (withoutContext_request u apiKey) = None"
    by (simp_all add: debugproxy_request_def withoutContext_request_def)
  from 1 2 3 5(1) 4 5(2-6) show ?thesis by (intro conjI)
qed

text \<open>
  The example prover answers every request alike, and the two results agree; the header
  is in the one request and in the other there are no secret options.
\<close>

theorem debugproxy_as_withoutContext_witness:
  "zkFetch example_env debugproxy_request
     = zkFetch example_env (withoutContext_request ''https://browserleaks.com/ip'' None)
   \<and> snd (fst (debugproxy example_env example_state)) = Success example_data
   \<and> fst (generateProofWithoutContext example_env example_state ''https://browserleaks.com/ip'' None)
       = Success example_data
   \<and> map secretOptions (prover_calls (snd (generateProofWithoutContext example_env example_state
         ''https://browserleaks.com/ip'' (Some ''k''))))
       = [Some \<lparr>headers = [(''X-MBX-APIKEY'', Some ''k'')], responseMatches = None\<rparr>]
   \<and> map secretOptions (prover_calls (snd (debugproxy example_env example_state))) = [None]"
proof -
  have h: "zkFetch example_env debugproxy_request
     = zkFetch example_env (withoutContext_request ''https://browserleaks.com/ip'' None)"
    by (simp add: example_env_def)
  have d: "snd (fst (debugproxy example_env example_state)) = Success example_data"
    by (simp add: debugproxy_def example_env_def example_data_def)
  note t = debugproxy_as_withoutContext [where apiKey = None and e = example_env and s = example_state]
  note t' = debugproxy_as_withoutContext [where apiKey = "Some ''k''" and e = example_env
      and s = example_state and u = "''https://browserleaks.com/ip''"]
  have p: "prover_calls example_state = []" by (simp add: example_state_def)
  from t [THEN conjunct2, THEN conjunct1, rule_format, OF h] d h
    t' [THEN conjunct2, THEN conjunct2, THEN conjunct1]
    t' [THEN conjunct2, THEN conjunct2, THEN conjunct2, THEN conjunct1]
    t' [THEN conjunct2, THEN conjunct2, THEN conjunct2, THEN conjunct2, THEN conjunct1]
    t' [THEN conjunct2, THEN conjunct2, THEN conjunct2, THEN conjunct2, THEN conjunct2, THEN conjunct1]
  show ?thesis by (simp add: p)
qed

text \<open>
  Claim C10 as stated fails for a prover that tells the two requests apart: one that
  needs secret options has no proof for the debug endpoint, and a proof for
  \<open>generateProofWithoutContext\<close> on the same URL, with or without an API key.
\<close>

theorem debugproxy_differs_from_withoutContext:
  "snd (fst (debugproxy example_env_needs_options example_state)) = Failure ''Failed to generate proof''
   \<and> fst (generateProofWithoutContext example_env_needs_options example_state
            ''https://browserleaks.com/ip'' None) = Success example_data
   \<and> fst (generateProofWithoutContext example_env_needs_options example_state
            ''https://browserleaks.com/ip'' (Some ''k'')) = Success example_data"
  by (simp add: debugproxy_def generateProofWithoutContext_def example_env_needs_options_def
      example_env_def example_data_def debugproxy_request_def withoutContext_request_def)

lemma generateProof_result:
  "fst (generateProof e s u ms k) =
     (case zkFetch e (generateProof_request u ms k) of
        Inl err \<Rightarrow> Failure (errorMessage err)
      | Inr None \<Rightarrow> Failure ''Failed to generate proof''
      | Inr (Some proof) \<Rightarrow>
          (case verifySignedProof e proof of
             Inl err \<Rightarrow> Failure (errorMessage err)
           | Inr False \<Rightarrow> Failure ''Proof is invalid''
           | Inr True \<Rightarrow>
               (case transformForOnchain e proof of
                  Inl err \<Rightarrow> Failure (errorMessage err)
                | Inr proofData \<Rightarrow> Success (proofData_json proofData proof))))"
  by (simp add: generateProof_def Let_def split: sum.split option.split bool.split)

lemma taxonomy_no_proof:
  "zkFetch e (generateProof_request u ms k) = Inr None \<Longrightarrow>
   fst (generateProof e s u ms k) = Failure ''Failed to generate proof''"
  by (simp add: generateProof_result)

lemma taxonomy_invalid:
  "zkFetch e (generateProof_request u ms k) = Inr (Some p) \<Longrightarrow> verifySignedProof e p = Inr False \<Longrightarrow>
   fst (generateProof e s u ms k) = Failure ''Proof is invalid''"
  by (simp add: generateProof_result)

lemma taxonomy_thrown:
  "thrownInFlow e (generateProof_request u ms k) = Some err \<Longrightarrow>
   fst (generateProof e s u ms k) = Failure (errorMessage err)"
  by (auto simp add: generateProof_result thrownInFlow_def split: sum.splits option.splits bool.splits)

lemma taxonomy_success:
  "zkFetch e (generateProof_request u ms k) = Inr (Some p) \<Longrightarrow> verifySignedProof e p = Inr True \<Longrightarrow>
   transformForOnchain e p = Inr t \<Longrightarrow>
   fst (generateProof e s u ms k) = Success (proofData_json t p)"
  by (simp add: generateProof_result)

lemma taxonomy_success_only:
  "fst (generateProof e s u ms k) = Success d \<Longrightarrow>
   \<exists>p t. zkFetch e (generateProof_request u ms k) = Inr (Some p) \<and> verifySignedProof e p = Inr True
      \<and> transformForOnchain e p = Inr t \<and> d = proofData_json t p"
  by (auto simp add: generateProof_result split: sum.splits option.splits bool.splits)

lemma taxonomy_no_proof_only:
  "fst (generateProof e s u ms k) = Failure ''Failed to generate proof'' \<Longrightarrow>
   zkFetch e (generateProof_request u ms k) = Inr None
   \<or> (\<exists>err. thrownInFlow e (generateProof_request u ms k) = Some err
         \<and> errorMessage err = ''Failed to generate proof'')"
  by (auto simp add: generateProof_result thrownInFlow_def split: sum.splits option.splits bool.splits)

lemma taxonomy_invalid_only:
  "fst (generateProof e s u ms k) = Failure ''Proof is invalid'' \<Longrightarrow>
   (\<exists>p. zkFetch e (generateProof_request u ms k) = Inr (Some p) \<and> verifySignedProof e p = Inr False)
   \<or> (\<exists>err. thrownInFlow e (generateProof_request u ms k) = Some err
         \<and> errorMessage err = ''Proof is invalid'')"
  by (auto simp add: generateProof_result thrownInFlow_def split: sum.splits option.splits bool.splits)

section \<open>Calls to the prover and to the exchange\<close>

lemma asset_run:
  "asset_api_secret b = Some sec \<Longrightarrow>
   generateAssetProof c e s b =
     (case generateProof e s (assetProofUrl c e sec) (assetMatches (asset b)) (asset_api_key b) of
        (rslt, s2) \<Rightarrow>
          (case rslt of
             Failure err \<Rightarrow> (Sent 400 (Text_body err), s2)
           | Success d \<Rightarrow> (Sent 200 (Json_body (Some d)), s2)))"
  by (simp add: generateAssetProof_def createSignature_js_def assetProofUrl_def Let_def)

lemma asset_state:
  "asset_api_secret b = Some sec \<Longrightarrow>
   snd (generateAssetProof c e s b) =
     s\<lparr>prover_calls := prover_calls s @
          [generateProof_request (assetProofUrl c e sec) (assetMatches (asset b)) (asset_api_key b)]\<rparr>"
proof -
  assume sec: "asset_api_secret b = Some sec"
  obtain rslt s2 where gp:
    "generateProof e s (assetProofUrl c e sec) (assetMatches (asset b)) (asset_api_key b) = (rslt, s2)"
    by (cases "generateProof e s (assetProofUrl c e sec) (assetMatches (asset b)) (asset_api_key b)")
  have "s2 = s\<lparr>prover_calls := prover_calls s @
          [generateProof_request (assetProofUrl c e sec) (assetMatches (asset b)) (asset_api_key b)]\<rparr>"
    using generateProof_calls [of e s "assetProofUrl c e sec" "assetMatches (asset b)" "asset_api_key b"] gp
    by simp
  then show ?thesis
    unfolding asset_run [OF sec] gp by (simp split: result.split)
qed

lemma trade_calls:
  assumes miss: "cacheMiss s (tradeCacheKey c b)" and sec: "api_secret b = Some sec"
  shows "prover_calls (snd (generateUSDMTradeProof c e s b)) =
     prover_calls s @ [generateProof_request (tradeProofUrl c e b sec) tradeMatches (api_key b)]"
proof -
  obtain rslt s2 where gp:
    "generateProof e (afterTimeFetch s) (tradeProofUrl c e b sec) tradeMatches (api_key b) = (rslt, s2)"
    by (cases "generateProof e (afterTimeFetch s) (tradeProofUrl c e b sec) tradeMatches (api_key b)")
  have "prover_calls s2 = prover_calls s @
          [generateProof_request (tradeProofUrl c e b sec) tradeMatches (api_key b)]"
    using generateProof_calls [of e "afterTimeFetch s" "tradeProofUrl c e b sec" tradeMatches "api_key b"] gp
    by (simp add: afterTimeFetch_def)
  then show ?thesis
    unfolding trade_miss [OF miss sec] gp by (simp split: result.split option.split)
qed

lemma debugproxy_calls:
  "prover_calls (snd (debugproxy e s)) = prover_calls s @ [debugproxy_request]"
  by (simp add: debugproxy_def Let_def split: sum.split option.split bool.split)

lemma withoutContext_calls:
  "prover_calls (snd (generateProofWithoutContext e s u k)) = prover_calls s @ [withoutContext_request u k]"
  by (simp add: generateProofWithoutContext_def Let_def split: sum.split option.split bool.split)

lemma getTrades_prover_calls: "prover_calls (snd (getTrades c e s q)) = prover_calls s"
  by (simp add: getTrades_def Let_def split: sum.split)

lemma getTrades_axios_calls:
  "server_time e = Inr t \<Longrightarrow> API_SECRET e = Some sec \<Longrightarrow>
   axios_calls (snd (getTrades c e s q)) =
     axios_calls s @ [timeUrl,
        signedUrl ''https://fapi.binance.com'' ''/fapi/v1/userTrades'' (tradesQueryString t q)
          (createSignature c (tradesQueryString t q) sec)]"
  by (simp add: getTrades_def createSignature_js_def Let_def split: sum.split)

lemma asset_no_secret:
  "asset_api_secret b = None \<Longrightarrow> prover_calls (snd (generateAssetProof c e s b)) = prover_calls s"
  by (simp add: generateAssetProof_def createSignature_js_def Let_def)

lemma trade_no_secret_calls:
  assumes "cacheMiss s (tradeCacheKey c b)" and "api_secret b = None"
  shows "prover_calls (snd (generateUSDMTradeProof c e s b)) = prover_calls s"
proof -
  from trade_miss_no_secret [OF assms, of e] obtain err where
    "generateUSDMTradeProof c e s b = (Sent 500 (Caught_body err), afterTimeFetch s)" by (elim exE)
  then show ?thesis by (simp add: afterTimeFetch_def)
qed

lemma trade_no_miss_calls:
  assumes "\<not> cacheMiss s (tradeCacheKey c b)"
  shows "prover_calls (snd (generateUSDMTradeProof c e s b)) = prover_calls s"
proof -
  consider (hit) v where "files s (tradeCacheKey c b) = Some (Json_text v)" "truthy v"
    | (bad) msg where "files s (tradeCacheKey c b) = Some (Bad_text msg)"
    using cache_cases [of s "tradeCacheKey c b"] assms by blast
  then show ?thesis
  proof cases
    case hit
    then show ?thesis by (simp add: trade_hit)
  next
    case bad
    then show ?thesis by (simp add: trade_bad)
  qed
qed

section \<open>Error taxonomy and retries\<close>

text \<open>
  Claim C2, as amended. \<open>generateProof\<close> returns \<open>Failure ''Failed to generate proof''\<close>
  when the prover returns no proof, \<open>Failure ''Proof is invalid''\<close> when the proof it
  returned fails the verification, \<open>Failure\<close> with the message of the error when the
  prover, the verification or the transformation throws, and \<open>Success\<close> with the
  transformed and the raw proof otherwise. Conversely each of the two fixed messages
  comes from its own case or from a thrown error whose message is that very text, and a
  \<open>Success\<close> only from a verified, transformed proof. The trade-proof endpoint answers
  a \<open>Failure\<close> of its proof request with status 400 and the message as body.
\<close>

theorem generateProof_taxonomy:
  "(zkFetch e (generateProof_request u ms k) = Inr None
      \<longrightarrow> fst (generateProof e s u ms k) = Failure ''Failed to generate proof'')
   \<and> (zkFetch e (generateProof_request u ms k) = Inr (Some p) \<and> verifySignedProof e p = Inr False
      \<longrightarrow> fst (generateProof e s u ms k) = Failure ''Proof is invalid'')
   \<and> (thrownInFlow e (generateProof_request u ms k) = Some err
      \<longrightarrow> fst (generateProof e s u ms k) = Failure (errorMessage err))
   \<and> (zkFetch e (generateProof_request u ms k) = Inr (Some p) \<and> verifySignedProof e p = Inr True
        \<and> transformForOnchain e p = Inr t
      \<longrightarrow> fst (generateProof e s u ms k) = Success (proofData_json t p))
   \<and> (fst (generateProof e s u ms k) = Failure ''Failed to generate proof''
      \<longrightarrow> zkFetch e (generateProof_request u ms k) = Inr None
          \<or> (\<exists>err'. thrownInFlow e (generateProof_request u ms k) = Some err'
                \<and> errorMessage err' = ''Failed to generate proof''))
   \<and> (fst (generateProof e s u ms k) = Failure ''Proof is invalid''
      \<longrightarrow> (\<exists>p'. zkFetch e (generateProof_request u ms k) = Inr (Some p')
                \<and> verifySignedProof e p' = Inr False)
          \<or> (\<exists>err'. thrownInFlow e (generateProof_request u ms k) = Some err'
                \<and> errorMessage err' = ''Proof is invalid''))
   \<and> (fst (generateProof e s u ms k) = Success d
      \<longrightarrow> (\<exists>p' t'. zkFetch e (generateProof_request u ms k) = Inr (Some p')
                \<and> verifySignedProof e p' = Inr True \<and> transformForOnchain e p' = Inr t'
                \<and> d = proofData_json t' p'))
   \<and> (cacheMiss s (tradeCacheKey c b) \<and> api_secret b = Some sec
        \<and> generateProof e (afterTimeFetch s) (tradeProofUrl c e b sec) tradeMatches (api_key b)
             = (Failure msg, s2)
      \<longrightarrow> generateUSDMTradeProof c e s b = (Sent 400 (Text_body msg), s2))"
  (is "?a \<and> ?b \<and> ?c \<and> ?d \<and> ?e \<and> ?f \<and> ?g \<and> ?h")
proof -
  have a: ?a by (simp add: taxonomy_no_proof)
  have b: ?b by (simp add: taxonomy_invalid)
  have c: ?c by (simp add: taxonomy_thrown)
  have d: ?d by (simp add: taxonomy_success)
  have e: ?e using taxonomy_no_proof_only [of e s u ms k] by (intro impI) simp
  have f: ?f using taxonomy_invalid_only [of e s u ms k] by (intro impI) simp
  have g: ?g using taxonomy_success_only [of e s u ms k d] by (intro impI) simp
  have h: ?h
  proof
    assume a: "cacheMiss s (tradeCacheKey c b) \<and> api_secret b = Some sec
        \<and> generateProof e (afterTimeFetch s) (tradeProofUrl c e b sec) tradeMatches (api_key b)
             = (Failure msg, s2)"
    have "generateUSDMTradeProof c e s b = (Sent 400 (Text_body msg), s2) \<and> files s2 = files s"
      by (rule trade_failure_not_cached [of s c b sec e msg s2]) (simp_all add: a)
    then show "generateUSDMTradeProof c e s b = (Sent 400 (Text_body msg), s2)" by (rule conjunct1)
  qed
  from a b c d e f g h show ?thesis by (intro conjI)
qed

text \<open>A prover without proof, a prover that throws, and the example prover.\<close>

theorem generateProof_taxonomy_witness:
  "zkFetch example_env_no_proof (generateProof_request ''u'' tradeMatches None) = Inr None
   \<and> fst (generateProof example_env_no_proof example_state ''u'' tradeMatches None)
       = Failure ''Failed to generate proof''
   \<and> thrownInFlow example_env_throwing (generateProof_request ''u'' tradeMatches None)
       = Some (Js_error ''Failed to generate proof'')
   \<and> fst (generateProof example_env_throwing example_state ''u'' tradeMatches None)
       = Failure ''Failed to generate proof''
   \<and> fst (generateProof example_env example_state ''u'' tradeMatches None) = Success example_data"
proof -
  have 1: "zkFetch example_env_no_proof (generateProof_request ''u'' tradeMatches None) = Inr None"
    by (simp add: example_env_no_proof_def)
  have 2: "thrownInFlow example_env_throwing (generateProof_request ''u'' tradeMatches None)
       = Some (Js_error ''Failed to generate proof'')"
    by (simp add: thrownInFlow_def example_env_throwing_def)
  have 3: "zkFetch example_env (generateProof_request ''u'' tradeMatches None) = Inr (Some example_proof)
      \<and> verifySignedProof example_env example_proof = Inr True
      \<and> transformForOnchain example_env example_proof = Inr (JObj [(''signedClaim'', JObj example_proof)])"
    by (simp add: example_env_def)
  note t1 = generateProof_taxonomy [where e = example_env_no_proof and s = example_state
      and u = "''u''" and ms = tradeMatches and k = None, THEN conjunct1, rule_format, OF 1]
  note t2 = generateProof_taxonomy [where e = example_env_throwing and s = example_state
      and u = "''u''" and ms = tradeMatches and k = None,
      THEN conjunct2, THEN conjunct2, THEN conjunct1, rule_format, OF 2]
  note t3 = generateProof_taxonomy [where e = example_env and s = example_state
      and u = "''u''" and ms = tradeMatches and k = None,
      THEN conjunct2, THEN conjunct2, THEN conjunct2, THEN conjunct1, rule_format, OF 3]
  from 1 2 t1 t2 t3 show ?thesis
    by (simp add: errorMessage_def example_data_def)
qed

text \<open>
  Claim C2 as stated fails in its ``only if'': a prover that throws an error whose
  message is \<^verbatim>\<open>Failed to generate proof\<close> yields that failure, yet it did not return an
  absent proof.
\<close>

theorem thrown_error_same_message:
  "fst (generateProof example_env_throwing example_state ''u'' tradeMatches None)
     = Failure ''Failed to generate proof''
   \<and> zkFetch example_env_throwing (generateProof_request ''u'' tradeMatches None) \<noteq> Inr None
   \<and> zkFetch example_env_throwing (generateProof_request ''u'' tradeMatches None)
       = Inl (Js_error ''Failed to generate proof'')"
  by (simp add: generateProof_def example_env_throwing_def errorMessage_def)

text \<open>
  Claim C3, as amended. Every call through \<open>generateProof\<close> is one call to the prover
  with the retry parameters 3 and 5000. The asset-proof endpoint makes that call once
  when the body has an \<open>api_secret\<close>, and the trade-proof endpoint once when the body has
  an \<open>api_secret\<close> and the cache misses; without an \<open>api_secret\<close> neither calls the prover,
  nor does the trade-proof endpoint when the cache does not miss. \<^verbatim>\<open>POST /debugproxy\<close>
  and \<open>generateProofWithoutContext\<close> call the prover once without retry parameters, and
  \<^verbatim>\<open>GET /\<close> never calls it.
\<close>

theorem retry_parameters:
  "(asset_api_secret ab = Some sec \<longrightarrow>
      prover_calls (snd (generateAssetProof c e s ab)) =
        prover_calls s @ [generateProof_request (assetProofUrl c e sec) (assetMatches (asset ab))
                            (asset_api_key ab)])
   \<and> (cacheMiss s (tradeCacheKey c b) \<and> api_secret b = Some sec' \<longrightarrow>
      prover_calls (snd (generateUSDMTradeProof c e s b)) =
        prover_calls s @ [generateProof_request (tradeProofUrl c e b sec') tradeMatches (api_key b)])
   \<and> retries (generateProof_request u ms k) = Some 3
   \<and> retryInterval (generateProof_request u ms k) = Some 5000
   \<and> prover_calls (snd (debugproxy e s)) = prover_calls s @ [debugproxy_request]
   \<and> retries debugproxy_request = None \<and> retryInterval debugproxy_request = None
   \<and> prover_calls (snd (generateProofWithoutContext e s u k)) = prover_calls s @ [withoutContext_request u k]
   \<and> retries (withoutContext_request u k) = None \<and> retryInterval (withoutContext_request u k) = None
   \<and> prover_calls (snd (getTrades c e s q)) = prover_calls s
   \<and> prover_calls (snd (generateProof e s u ms k)) = prover_calls s @ [generateProof_request u ms k]
   \<and> (asset_api_secret ab = None \<longrightarrow>
        prover_calls (snd (generateAssetProof c e s ab)) = prover_calls s)
   \<and> (cacheMiss s (tradeCacheKey c b) \<and> api_secret b = None \<longrightarrow>
        prover_calls (snd (generateUSDMTradeProof c e s b)) = prover_calls s)
   \<and> (\<not> cacheMiss s (tradeCacheKey c b) \<longrightarrow>
        prover_calls (snd (generateUSDMTradeProof c e s b)) = prover_calls s)"
proof -
  have 1: "asset_api_secret ab = Some sec \<longrightarrow>
      prover_calls (snd (generateAssetProof c e s ab)) =
        prover_calls s @ [generateProof_request (assetProofUrl c e sec) (assetMatches (asset ab))
                            (asset_api_key ab)]"
    by (simp add: asset_state)
  have 2: "cacheMiss s (tradeCacheKey c b) \<and> api_secret b = Some sec' \<longrightarrow>
      prover_calls (snd (generateUSDMTradeProof c e s b)) =
        prover_calls s @ [generateProof_request (tradeProofUrl c e b sec') tradeMatches (api_key b)]"
    by (simp add: trade_calls)
  have 3: "retries (generateProof_request u ms k) = Some 3"
    "retryInterval (generateProof_request u ms k) = Some 5000"
    "retries debugproxy_request = None" "retryInterval debugproxy_request = None"
    "retries (withoutContext_request u k) = None" "retryInterval (withoutContext_request u k) = None"
    by (simp_all add: generateProof_request_def debugproxy_request_def withoutContext_request_def)
  have 4: "prover_calls (snd (generateProof e s u ms k)) = prover_calls s @ [generateProof_request u ms k]"
    by (simp add: generateProof_calls)
  have 5: "asset_api_secret ab = None \<longrightarrow>
        prover_calls (snd (generateAssetProof c e s ab)) = prover_calls s"
    by (simp add: asset_no_secret)
  have 6: "cacheMiss s (tradeCacheKey c b) \<and> api_secret b = None \<longrightarrow>
        prover_calls (snd (generateUSDMTradeProof c e s b)) = prover_calls s"
    by (simp add: trade_no_secret_calls)
  have 7: "\<not> cacheMiss s (tradeCacheKey c b) \<longrightarrow>
        prover_calls (snd (generateUSDMTradeProof c e s b)) = prover_calls s"
    by (simp add: trade_no_miss_calls)
  from 1 2 3 debugproxy_calls [of e s] withoutContext_calls [of e s u k] getTrades_prover_calls [of c e s q]
    4 5 6 7
  show ?thesis by (intro conjI)
qed

text \<open>
  The example asset request and the example trade request both ask for 3 attempts;
  without a secret, and on the cached trade, the prover is not called.
\<close>

theorem retry_parameters_witness:
  "map retries (prover_calls (snd (generateAssetProof example_crypto example_env example_state example_asset)))
     = [Some 3]
   \<and> map retries (prover_calls (snd (generateUSDMTradeProof example_crypto example_env example_state example_trade)))
     = [Some 3]
   \<and> prover_calls (snd (generateAssetProof example_crypto example_env example_state
        (example_asset\<lparr>asset_api_secret := None\<rparr>))) = []
   \<and> prover_calls (snd (generateUSDMTradeProof example_crypto example_env example_state
        (example_trade\<lparr>api_secret := None\<rparr>))) = []
   \<and> prover_calls (snd (generateUSDMTradeProof example_crypto example_env example_cached example_trade))
     = prover_calls example_cached"
proof -
  have a: "asset_api_secret example_asset = Some ''s''" by (simp add: example_asset_def)
  have b: "cacheMiss example_state (tradeCacheKey example_crypto example_trade) \<and> api_secret example_trade = Some ''s''"
    by (simp add: example_miss example_trade_def)
  have a': "asset_api_secret (example_asset\<lparr>asset_api_secret := None\<rparr>) = None" by simp
  have b': "cacheMiss example_state (tradeCacheKey example_crypto (example_trade\<lparr>api_secret := None\<rparr>))
      \<and> api_secret (example_trade\<lparr>api_secret := None\<rparr>) = None"
    by (simp add: example_miss)
  have h: "\<not> cacheMiss example_cached (tradeCacheKey example_crypto example_trade)"
    by (simp add: cacheMiss_def example_cached_def cacheEntry_def)
  note t = retry_parameters [where c = example_crypto and e = example_env and s = example_state
      and ab = example_asset and b = example_trade and sec = "''s''" and sec' = "''s''"]
  note t1 = retry_parameters [where c = example_crypto and e = example_env and s = example_state
      and ab = "example_asset\<lparr>asset_api_secret := None\<rparr>"
      and b = "example_trade\<lparr>api_secret := None\<rparr>"]
  note t2 = retry_parameters [where c = example_crypto and e = example_env and s = example_cached
      and b = example_trade]
  note n = conjunct2 [THEN conjunct2, THEN conjunct2, THEN conjunct2, THEN conjunct2, THEN conjunct2,
      THEN conjunct2, THEN conjunct2, THEN conjunct2, THEN conjunct2, THEN conjunct2, THEN conjunct2]
  from t [THEN conjunct1, rule_format, OF a] t [THEN conjunct2, THEN conjunct1, rule_format, OF b]
    t1 [THEN n, THEN conjunct1, rule_format, OF a']
    t1 [THEN n, THEN conjunct2, THEN conjunct1, rule_format, OF b']
    t2 [THEN n, THEN conjunct2, THEN conjunct2, rule_format, OF h]
  show ?thesis by (simp add: example_state_def generateProof_request_def)
qed

text \<open>
  Claim C3 as stated fails on the asset-proof endpoint, which is not the trade-proof
  endpoint and hands the prover the retry parameters 3 and 5000.
\<close>

theorem asset_proof_retries:
  "map retries (prover_calls (snd (generateAssetProof example_crypto example_env example_state example_asset)))
     = [Some 3]
   \<and> map retryInterval (prover_calls (snd (generateAssetProof example_crypto example_env example_state example_asset)))
     = [Some 5000]"
proof -
  have a: "asset_api_secret example_asset = Some ''s''" by (simp add: example_asset_def)
  show ?thesis
    by (simp add: asset_state [OF a] example_state_def generateProof_request_def)
qed

section \<open>Signed requests\<close>

text \<open>
  Claim C5, as amended. The trade-proof endpoint signs \<^verbatim>\<open>timestamp\<close>, \<^verbatim>\<open>symbol\<close>,
  \<^verbatim>\<open>orderId\<close>, \<^verbatim>\<open>recvWindow=60000\<close>, in this order, with the secret of the request body; the
  asset-proof endpoint signs \<^verbatim>\<open>timestamp\<close> alone, with the secret of the request body;
  \<^verbatim>\<open>GET /\<close> signs \<^verbatim>\<open>timestamp\<close>, \<^verbatim>\<open>symbol\<close>, \<^verbatim>\<open>recvWindow=60000\<close> with the secret of the server's
  environment. In each the signature is \<open>createSignature\<close> of exactly the query
  string, appended to it afterwards as \<^verbatim>\<open>&signature=\<close>.
\<close>

theorem signed_query_strings:
  "(cacheMiss s (tradeCacheKey c b) \<and> api_secret b = Some sec \<longrightarrow>
      (let queryString = ''timestamp='' @ tradeTimestamp e @ ''&symbol='' @ js_string (symbol b)
                           @ ''&orderId='' @ js_string (order_id b) @ ''&recvWindow=60000''
       in map url (prover_calls (snd (generateUSDMTradeProof c e s b))) =
            map url (prover_calls s) @
              [''https://fapi.binance.com/fapi/v1/userTrades?'' @ queryString
                 @ ''&signature='' @ createSignature c queryString sec]))
   \<and> (asset_api_secret ab = Some sec' \<longrightarrow>
      (let queryString = ''timestamp='' @ show_nat (date_now e)
       in map url (prover_calls (snd (generateAssetProof c e s ab))) =
            map url (prover_calls s) @
              [''https://api.binance.com/api/v3/account?'' @ queryString
                 @ ''&signature='' @ createSignature c queryString sec']))
   \<and> (server_time e = Inr t \<and> API_SECRET e = Some sec'' \<longrightarrow>
      (let queryString = ''timestamp='' @ t @ ''&symbol='' @ js_string q @ ''&recvWindow=60000''
       in axios_calls (snd (getTrades c e s q)) =
            axios_calls s @
              [''https://fapi.binance.com/fapi/v1/time'',
               ''https://fapi.binance.com/fapi/v1/userTrades?'' @ queryString
                 @ ''&signature='' @ createSignature c queryString sec'']))"
  (is "?trade \<and> ?asset \<and> ?trades")
proof -
  have 1: ?trade
  proof
    assume a: "cacheMiss s (tradeCacheKey c b) \<and> api_secret b = Some sec"
    then have m: "cacheMiss s (tradeCacheKey c b)" and k: "api_secret b = Some sec" by simp_all
    show "let queryString = ''timestamp='' @ tradeTimestamp e @ ''&symbol='' @ js_string (symbol b)
                           @ ''&orderId='' @ js_string (order_id b) @ ''&recvWindow=60000''
       in map url (prover_calls (snd (generateUSDMTradeProof c e s b))) =
            map url (prover_calls s) @
              [''https://fapi.binance.com/fapi/v1/userTrades?'' @ queryString
                 @ ''&signature='' @ createSignature c queryString sec]"
      by (simp add: trade_calls [OF m k] Let_def generateProof_request_def tradeProofUrl_def
          tradeQueryString_def signedUrl_def)
  qed
  have 2: ?asset
  proof
    assume k: "asset_api_secret ab = Some sec'"
    show "let queryString = ''timestamp='' @ show_nat (date_now e)
       in map url (prover_calls (snd (generateAssetProof c e s ab))) =
            map url (prover_calls s) @
              [''https://api.binance.com/api/v3/account?'' @ queryString
                 @ ''&signature='' @ createSignature c queryString sec']"
      by (simp add: asset_state [OF k] Let_def generateProof_request_def assetProofUrl_def
          assetQueryString_def signedUrl_def del: show_nat.simps)
  qed
  have 3: ?trades
  proof
    assume a: "server_time e = Inr t \<and> API_SECRET e = Some sec''"
    then have m: "server_time e = Inr t" and k: "API_SECRET e = Some sec''" by simp_all
    show "let queryString = ''timestamp='' @ t @ ''&symbol='' @ js_string q @ ''&recvWindow=60000''
       in axios_calls (snd (getTrades c e s q)) =
            axios_calls s @
              [''https://fapi.binance.com/fapi/v1/time'',
               ''https://fapi.binance.com/fapi/v1/userTrades?'' @ queryString
                 @ ''&signature='' @ createSignature c queryString sec'']"
      by (simp add: getTrades_axios_calls [OF m k] Let_def tradesQueryString_def signedUrl_def
          timeUrl_def)
  qed
  from 1 2 3 show ?thesis by (intro conjI)
qed

text \<open>The three signed URLs of the example requests.\<close>

theorem signed_query_strings_witness:
  "map url (prover_calls (snd (generateUSDMTradeProof example_crypto example_env example_state example_trade)))
     = [''https://fapi.binance.com/fapi/v1/userTrades?timestamp=3&symbol=BTCUSDT&orderId=123&recvWindow=60000&signature=0137'']
   \<and> createSignature example_crypto ''timestamp=3&symbol=BTCUSDT&orderId=123&recvWindow=60000'' ''s'' = ''0137''
   \<and> map url (prover_calls (snd (generateAssetProof example_crypto example_env example_state example_asset)))
     = [''https://api.binance.com/api/v3/account?timestamp=5&signature=010b'']
   \<and> axios_calls (snd (getTrades example_crypto example_env example_state (Some ''BTCUSDT'')))
     = [''https://fapi.binance.com/fapi/v1/time'',
        ''https://fapi.binance.com/fapi/v1/userTrades?timestamp=3&symbol=BTCUSDT&recvWindow=60000&signature=012b'']"
proof -
  have a: "cacheMiss example_state (tradeCacheKey example_crypto example_trade) \<and> api_secret example_trade = Some ''s''"
    by (simp add: example_miss example_trade_def)
  have b: "asset_api_secret example_asset = Some ''s''" by (simp add: example_asset_def)
  have c: "server_time example_env = Inr ''3'' \<and> API_SECRET example_env = Some ''s''"
    by (simp add: example_env_def)
  note t = signed_query_strings [where c = example_crypto and e = example_env and s = example_state
      and b = example_trade and ab = example_asset and sec = "''s''" and sec' = "''s''"
      and sec'' = "''s''" and t = "''3''" and q = "Some ''BTCUSDT''"]
  have sg: "createSignature example_crypto ''timestamp=3&symbol=BTCUSDT&orderId=123&recvWindow=60000'' ''s'' = ''0137''"
    "createSignature example_crypto ''timestamp=5'' ''s'' = ''010b''"
    "createSignature example_crypto ''timestamp=3&symbol=BTCUSDT&recvWindow=60000'' ''s'' = ''012b''"
    by (simp_all add: createSignature_def example_crypto_def hex_defs)
  have ts: "tradeTimestamp example_env = ''3''" "show_nat (date_now example_env) = ''5''"
    "prover_calls example_state = []" "axios_calls example_state = []"
    "js_string (symbol example_trade) = ''BTCUSDT''" "js_string (order_id example_trade) = ''123''"
    "js_string (Some ''BTCUSDT'') = ''BTCUSDT''"
    by (simp_all add: tradeTimestamp_def example_env_def example_state_def example_trade_def js_string_def)
  from t [THEN conjunct1, rule_format, OF a] t [THEN conjunct2, THEN conjunct1, rule_format, OF b]
    t [THEN conjunct2, THEN conjunct2, rule_format, OF c]
  show ?thesis
    by (simp add: Let_def ts sg del: show_nat.simps)
qed

text \<open>
  Claim C5 as stated fails on the asset-proof endpoint: the query string it signs is the
  timestamp alone, and has no \<^verbatim>\<open>recvWindow\<close> field behind it.
\<close>

theorem asset_query_without_recvWindow:
  "map url (prover_calls (snd (generateAssetProof example_crypto example_env example_state example_asset)))
     = [''https://api.binance.com/api/v3/account?'' @ ''timestamp=5'' @ ''&signature=''
          @ createSignature example_crypto ''timestamp=5'' ''s'']
   \<and> \<not> (\<exists>ts fields w. ''timestamp=5'' = ''timestamp='' @ ts @ fields @ ''&recvWindow='' @ w)"
proof
  have b: "asset_api_secret example_asset = Some ''s''" by (simp add: example_asset_def)
  have ts: "show_nat (date_now example_env) = ''5''" "prover_calls example_state = []"
    by (simp_all add: example_env_def example_state_def)
  show "map url (prover_calls (snd (generateAssetProof example_crypto example_env example_state example_asset)))
     = [''https://api.binance.com/api/v3/account?'' @ ''timestamp=5'' @ ''&signature=''
          @ createSignature example_crypto ''timestamp=5'' ''s'']"
    by (simp add: asset_state [OF b] generateProof_request_def assetProofUrl_def assetQueryString_def
        signedUrl_def ts del: show_nat.simps)
  show "\<not> (\<exists>ts fields w. ''timestamp=5'' = ''timestamp='' @ ts @ fields @ ''&recvWindow='' @ w)"
  proof
    assume "\<exists>ts fields w. ''timestamp=5'' = ''timestamp='' @ ts @ fields @ ''&recvWindow='' @ w"
    then obtain ts fields w where "''timestamp=5'' = ''timestamp='' @ ts @ fields @ ''&recvWindow='' @ w"
      by blast
    then have "length ''timestamp=5'' = length (''timestamp='' @ ts @ fields @ ''&recvWindow='' @ w)"
      by (rule arg_cong)
    then show False by simp
  qed
qed

end
